theory Spec2Isabelle
  imports Main "HOL-Library.Word"
begin

section \<open>The RPC MIDI client of DOOM Retro (\<^verbatim>\<open>src/i_midirpc.c\<close>)\<close>

text \<open>
  The file holds the client side of the RPC MIDI server: three file-level variables
  (\<^verbatim>\<open>szStringBinding\<close>, \<^verbatim>\<open>serverInit\<close>, \<^verbatim>\<open>clientInit\<close>), the process
  structures \<^verbatim>\<open>si\<close> and \<^verbatim>\<open>pi\<close>, the binding handle \<^verbatim>\<open>hMidiRPCBinding\<close> of
  the generated RPC stub, six command wrappers and the three functions of the public
  interface.

  Everything the file calls and does not define (the Win32 and RPC runtime, the generated
  stubs \<^verbatim>\<open>MidiRPC_*\<close>, \<^verbatim>\<open>M_FileExists\<close>, \<^verbatim>\<open>I_Sleep\<close>, the console) is outside
  the program. The model takes the answers of those calls from an environment \<open>env\<close>,
  which is a parameter of every function and is never constrained, and it records every
  such call as an event of a trace kept in the state. An answer may depend on the moment
  of the call (the number of events so far), so the environment can answer the same call
  differently each time.
\<close>

subsection \<open>Data\<close>

type_synonym ptr = nat
  \<comment> \<open>a C pointer or handle; \<open>0\<close> is \<^verbatim>\<open>NULL\<close>\<close>

type_synonym RPC_STATUS = nat

definition RPC_S_OK :: RPC_STATUS where
  "RPC_S_OK = 0"

definition MIDIRPC_MAXTRIES :: int where
  "MIDIRPC_MAXTRIES = 50"

text \<open>The remote procedures of the generated stub, with their arguments.\<close>

datatype rpc_call =
    MidiRPC_PrepareNewSong
  | MidiRPC_AddChunk "32 word" "8 word list"
  | MidiRPC_PlaySong bool
  | MidiRPC_StopSong
  | MidiRPC_ChangeVolume int
  | MidiRPC_PauseSong
  | MidiRPC_ResumeSong
  | MidiRPC_StopServer

text \<open>The calls that leave the program, in the order they are made.\<close>

datatype event =
    E_FileExists string
  | E_CreateProcess string
  | E_Warning string
  | E_Output string
  | E_StringBindingCompose
  | E_BindingFromStringBinding ptr
  | E_IsServerListening ptr
  | E_Sleep nat
  | E_Remote ptr rpc_call
  | E_StringFree ptr
  | E_BindingFree ptr

text \<open>
  The variables of the file and the trace. \<open>si_cb\<close> is the one field of \<^verbatim>\<open>si\<close> the
  file writes; \<open>pi\<close> is the process information \<^verbatim>\<open>CreateProcess\<close> fills in.
\<close>

record state =
  szStringBinding :: ptr
  serverInit :: bool
  clientInit :: bool
  si_cb :: nat
  pi :: nat
  hMidiRPCBinding :: ptr
  trace :: "event list"

text \<open>
  The environment. The first four fields are constants of headers that are not part of
  this file. Each function field takes the moment of the call first. A function with an
  out-parameter takes the old content of the variable and gives back the content after
  the call next to its result. \<open>MidiRPC\<close> gives \<open>Some code\<close> when the remote call
  raises an RPC exception with that code, and \<open>None\<close> when it returns.
\<close>

record env =
  MAX_PATH :: nat
  DIR_SEPARATOR_S :: string
  M_GetExecutableFolder :: string
  sizeof_si :: nat
  M_FileExists :: "nat \<Rightarrow> string \<Rightarrow> bool"
  CreateProcess :: "nat \<Rightarrow> string \<Rightarrow> nat \<Rightarrow> bool \<times> nat"
  RpcStringBindingCompose :: "nat \<Rightarrow> ptr \<Rightarrow> RPC_STATUS \<times> ptr"
  RpcBindingFromStringBinding :: "nat \<Rightarrow> ptr \<Rightarrow> ptr \<Rightarrow> RPC_STATUS \<times> ptr"
  RpcMgmtIsServerListening :: "nat \<Rightarrow> ptr \<Rightarrow> RPC_STATUS"
  MidiRPC :: "nat \<Rightarrow> ptr \<Rightarrow> rpc_call \<Rightarrow> nat option"

definition now :: "state \<Rightarrow> nat" where
  "now s = length (trace s)"

definition emit :: "event \<Rightarrow> state \<Rightarrow> state" where
  "emit e s = s\<lparr>trace := trace s @ [e]\<rparr>"

text \<open>All variables of the file are zero when the program starts.\<close>

definition state0 :: state where
  "state0 = \<lparr>szStringBinding = 0, serverInit = False, clientInit = False,
             si_cb = 0, pi = 0, hMidiRPCBinding = 0, trace = []\<rparr>"

subsection \<open>Remote calls and the exception frame\<close>

text \<open>
  A computation that may raise an RPC exception gives \<open>Inl code\<close> for an exception in
  flight and \<open>Inr v\<close> for a normal result.
\<close>

type_synonym 'a rpc = "state \<Rightarrow> (nat + 'a) \<times> state"

definition return_rpc :: "'a \<Rightarrow> 'a rpc" where
  "return_rpc v s = (Inr v, s)"

definition remote :: "env \<Rightarrow> rpc_call \<Rightarrow> unit rpc" where
  "remote ev c s =
     (case MidiRPC ev (now s) (hMidiRPCBinding s) c of
        None \<Rightarrow> (Inr (), emit (E_Remote (hMidiRPCBinding s) c) s)
      | Some code \<Rightarrow> (Inl code, emit (E_Remote (hMidiRPCBinding s) c) s))"

text \<open>Two statements in a row: the second does not run when the first raises.\<close>

definition rpc_seq :: "unit rpc \<Rightarrow> unit rpc \<Rightarrow> unit rpc" where
  "rpc_seq f g s = (case f s of (Inl code, s') \<Rightarrow> (Inl code, s') | (Inr _, s') \<Rightarrow> g s')"

text \<open>
  \<^verbatim>\<open>RpcTryExcept { body } RpcExcept(expr) { handler } RpcEndExcept rest\<close>.
  The filter \<open>expr\<close> is evaluated when the body raises: the value \<open>1\<close> runs the handler,
  any other value leaves the exception in flight. After a body that returns, control
  goes on with \<open>rest\<close>.
\<close>

definition RpcTryExcept :: "unit rpc \<Rightarrow> int \<Rightarrow> 'a rpc \<Rightarrow> 'a rpc \<Rightarrow> 'a rpc" where
  "RpcTryExcept body expr handler rest s =
     (case body s of
        (Inr _, s') \<Rightarrow> rest s'
      | (Inl code, s') \<Rightarrow> if expr = 1 then handler s' else (Inl code, s'))"

text \<open>
  \<^verbatim>\<open>CHECK_RPC_STATUS()\<close>: the condition under which the macro returns \<^verbatim>\<open>false\<close>
  from the function that uses it.
\<close>

definition CHECK_RPC_STATUS :: "state \<Rightarrow> bool" where
  "CHECK_RPC_STATUS s = (\<not> serverInit s \<or> \<not> clientInit s)"

subsection \<open>The readiness poll\<close>

function wait_loop :: "env \<Rightarrow> int \<Rightarrow> state \<Rightarrow> bool \<times> state" where
  "wait_loop ev tries s =
     (if RpcMgmtIsServerListening ev (now s) (hMidiRPCBinding s) \<noteq> RPC_S_OK then
        (let s1 = emit (E_IsServerListening (hMidiRPCBinding s)) s;
             s2 = emit (E_Sleep 10) s1;
             tries' = tries + 1
         in if tries' \<ge> MIDIRPC_MAXTRIES then (False, s2) else wait_loop ev tries' s2)
      else (True, emit (E_IsServerListening (hMidiRPCBinding s)) s))"
  by pat_completeness auto
termination
  by (relation "measure (\<lambda>(ev, tries, s). nat (MIDIRPC_MAXTRIES - tries))") auto

definition I_MidiRPCWaitForServer :: "env \<Rightarrow> state \<Rightarrow> bool \<times> state" where
  "I_MidiRPCWaitForServer ev s = wait_loop ev 0 s"

subsection \<open>RPC wrappers\<close>

definition I_MidiRPCRegisterSong :: "env \<Rightarrow> 8 word list \<Rightarrow> int \<Rightarrow> bool rpc" where
  "I_MidiRPCRegisterSong ev data size' s =
     (if CHECK_RPC_STATUS s then (Inr False, s)
      else RpcTryExcept
             (rpc_seq (remote ev MidiRPC_PrepareNewSong)
                      (remote ev (MidiRPC_AddChunk (word_of_int size') data)))
             1 (return_rpc False) (return_rpc True) s)"

definition I_MidiRPCPlaySong :: "env \<Rightarrow> bool \<Rightarrow> bool rpc" where
  "I_MidiRPCPlaySong ev looping s =
     (if CHECK_RPC_STATUS s then (Inr False, s)
      else RpcTryExcept (remote ev (MidiRPC_PlaySong looping))
             1 (return_rpc False) (return_rpc True) s)"

definition I_MidiRPCStopSong :: "env \<Rightarrow> bool rpc" where
  "I_MidiRPCStopSong ev s =
     (if CHECK_RPC_STATUS s then (Inr False, s)
      else RpcTryExcept (remote ev MidiRPC_StopSong)
             1 (return_rpc False) (return_rpc True) s)"

definition I_MidiRPCSetVolume :: "env \<Rightarrow> int \<Rightarrow> bool rpc" where
  "I_MidiRPCSetVolume ev volume s =
     (if CHECK_RPC_STATUS s then (Inr False, s)
      else RpcTryExcept (remote ev (MidiRPC_ChangeVolume volume))
             1 (return_rpc False) (return_rpc True) s)"

definition I_MidiRPCPauseSong :: "env \<Rightarrow> bool rpc" where
  "I_MidiRPCPauseSong ev s =
     (if CHECK_RPC_STATUS s then (Inr False, s)
      else RpcTryExcept (remote ev MidiRPC_PauseSong)
             1 (return_rpc False) (return_rpc True) s)"

definition I_MidiRPCResumeSong :: "env \<Rightarrow> bool rpc" where
  "I_MidiRPCResumeSong ev s =
     (if CHECK_RPC_STATUS s then (Inr False, s)
      else RpcTryExcept (remote ev MidiRPC_ResumeSong)
             1 (return_rpc False) (return_rpc True) s)"

subsection \<open>Public interface\<close>

text \<open>
  \<^verbatim>\<open>M_snprintf(module, sizeof(module), ...)\<close> with a buffer of \<^verbatim>\<open>MAX_PATH + 1\<close>
  characters keeps at most \<^verbatim>\<open>MAX_PATH\<close> characters of the path.
\<close>

definition module_path :: "env \<Rightarrow> string" where
  "module_path ev =
     take (MAX_PATH ev) (M_GetExecutableFolder ev @ DIR_SEPARATOR_S ev @ ''midiproc.exe'')"

definition I_MidiRPCInitServer :: "env \<Rightarrow> state \<Rightarrow> bool \<times> state" where
  "I_MidiRPCInitServer ev s =
     (let module = module_path ev in
      if \<not> M_FileExists ev (now s) module then
        (False,
         emit (E_Warning (''The RPC server '' @ module @ '' couldn't be found.''))
           (emit (E_FileExists module) s))
      else
        (let s1 = (emit (E_FileExists module) s)\<lparr>si_cb := sizeof_si ev\<rparr>;
             (result, pi') = CreateProcess ev (now s1) module (pi s1);
             s2 = emit (E_CreateProcess module) (s1\<lparr>pi := pi'\<rparr>)
         in if result then
              (result,
               (emit (E_Output (''Using the RPC server <b>'' @ module
                                @ ''</b> to play MUS and MIDI music lumps.'')) s2)
               \<lparr>serverInit := True\<rparr>)
            else
              (result,
               emit (E_Warning (''The RPC server '' @ module
                                @ '' couldn't be initialized.'')) s2)))"

definition I_MidiRPCInitClient :: "env \<Rightarrow> state \<Rightarrow> bool \<times> state" where
  "I_MidiRPCInitClient ev s =
     (if \<not> serverInit s then (False, s)
      else
        (let (st1, p) = RpcStringBindingCompose ev (now s) (szStringBinding s);
             s1 = emit E_StringBindingCompose (s\<lparr>szStringBinding := p\<rparr>)
         in if st1 \<noteq> 0 then (False, s1)
            else
              (let (st2, h) = RpcBindingFromStringBinding ev (now s1)
                                (szStringBinding s1) (hMidiRPCBinding s1);
                   s2 = emit (E_BindingFromStringBinding (szStringBinding s1))
                          (s1\<lparr>hMidiRPCBinding := h\<rparr>)
               in if st2 \<noteq> 0 then (False, s2)
                  else I_MidiRPCWaitForServer ev (s2\<lparr>clientInit := True\<rparr>))))"

text \<open>
  The part of \<^verbatim>\<open>I_MidiRPCClientShutDown\<close> after the server has been told to stop:
  the two releases, each under its own test, and the reset of \<^verbatim>\<open>clientInit\<close>.
\<close>

definition ShutDown_release :: "unit rpc" where
  "ShutDown_release s =
     (let s1 = (if szStringBinding s \<noteq> 0
                then (emit (E_StringFree (szStringBinding s)) s)\<lparr>szStringBinding := 0\<rparr>
                else s);
          s2 = (if hMidiRPCBinding s1 \<noteq> 0
                then (emit (E_BindingFree (hMidiRPCBinding s1)) s1)\<lparr>hMidiRPCBinding := 0\<rparr>
                else s1)
      in (Inr (), s2\<lparr>clientInit := False\<rparr>))"

definition I_MidiRPCClientShutDown :: "env \<Rightarrow> unit rpc" where
  "I_MidiRPCClientShutDown ev s =
     (if serverInit s then
        RpcTryExcept (remote ev MidiRPC_StopServer) 1
          (\<lambda>s'. ShutDown_release (s'\<lparr>serverInit := False\<rparr>))
          (\<lambda>s'. ShutDown_release (s'\<lparr>serverInit := False\<rparr>)) s
      else ShutDown_release s)"

subsection \<open>Callers\<close>

text \<open>
  The six commands of the gateway as one type, so that a statement can range over all
  of them, and the calls of the whole interface, so that it can range over every
  sequence of calls.
\<close>

datatype command =
    RegisterSong "8 word list" int
  | PlaySong bool
  | StopSong
  | SetVolume int
  | PauseSong
  | ResumeSong

fun gateway :: "env \<Rightarrow> command \<Rightarrow> bool rpc" where
  "gateway ev (RegisterSong data size') = I_MidiRPCRegisterSong ev data size'"
| "gateway ev (PlaySong looping) = I_MidiRPCPlaySong ev looping"
| "gateway ev StopSong = I_MidiRPCStopSong ev"
| "gateway ev (SetVolume volume) = I_MidiRPCSetVolume ev volume"
| "gateway ev PauseSong = I_MidiRPCPauseSong ev"
| "gateway ev ResumeSong = I_MidiRPCResumeSong ev"

datatype call = InitServer | InitClient | Command command | ClientShutDown

text \<open>
  One call of the interface: the state after it, or the code of an exception that left
  the called function.
\<close>

fun exec :: "env \<Rightarrow> call \<Rightarrow> state \<Rightarrow> nat + state" where
  "exec ev InitServer s = Inr (snd (I_MidiRPCInitServer ev s))"
| "exec ev InitClient s = Inr (snd (I_MidiRPCInitClient ev s))"
| "exec ev (Command c) s =
     (case gateway ev c s of (Inl code, s') \<Rightarrow> Inl code | (Inr r, s') \<Rightarrow> Inr s')"
| "exec ev ClientShutDown s =
     (case I_MidiRPCClientShutDown ev s of
        (Inl code, s') \<Rightarrow> Inl code | (Inr r, s') \<Rightarrow> Inr s')"

fun run :: "env \<Rightarrow> call list \<Rightarrow> state \<Rightarrow> nat + state" where
  "run ev [] s = Inr s"
| "run ev (c # cs) s = (case exec ev c s of Inl code \<Rightarrow> Inl code | Inr s' \<Rightarrow> run ev cs s')"

subsection \<open>Notions used in the statements\<close>

text \<open>
  \<open>raises ev s c\<close>: a remote call that command \<open>c\<close> makes from state \<open>s\<close> raises. The
  second remote call of \<^verbatim>\<open>I_MidiRPCRegisterSong\<close> is made one event after the first.
\<close>

fun raises :: "env \<Rightarrow> state \<Rightarrow> command \<Rightarrow> bool" where
  "raises ev s (RegisterSong data size') =
     (MidiRPC ev (now s) (hMidiRPCBinding s) MidiRPC_PrepareNewSong \<noteq> None
      \<or> MidiRPC ev (now s + 1) (hMidiRPCBinding s)
           (MidiRPC_AddChunk (word_of_int size') data) \<noteq> None)"
| "raises ev s (PlaySong looping) =
     (MidiRPC ev (now s) (hMidiRPCBinding s) (MidiRPC_PlaySong looping) \<noteq> None)"
| "raises ev s StopSong =
     (MidiRPC ev (now s) (hMidiRPCBinding s) MidiRPC_StopSong \<noteq> None)"
| "raises ev s (SetVolume volume) =
     (MidiRPC ev (now s) (hMidiRPCBinding s) (MidiRPC_ChangeVolume volume) \<noteq> None)"
| "raises ev s PauseSong =
     (MidiRPC ev (now s) (hMidiRPCBinding s) MidiRPC_PauseSong \<noteq> None)"
| "raises ev s ResumeSong =
     (MidiRPC ev (now s) (hMidiRPCBinding s) MidiRPC_ResumeSong \<noteq> None)"

text \<open>
  One round of the poll that finds the server not listening: the check and the sleep.
\<close>

definition poll_round :: "ptr \<Rightarrow> event list" where
  "poll_round h = [E_IsServerListening h, E_Sleep 10]"

text \<open>
  \<open>failed_checks ev t h n\<close>: how many checks in a row, the first at moment \<open>t\<close> and each
  two events after the one before, find the server not listening, counting at most
  \<open>n\<close> of them.
\<close>

fun failed_checks :: "env \<Rightarrow> nat \<Rightarrow> ptr \<Rightarrow> nat \<Rightarrow> nat" where
  "failed_checks ev t h 0 = 0"
| "failed_checks ev t h (Suc n) =
     (if RpcMgmtIsServerListening ev t h \<noteq> RPC_S_OK
      then Suc (failed_checks ev (t + 2) h n) else 0)"

text \<open>Measures of a trace: the listening checks in it, and the time slept in it.\<close>

fun listening_checks :: "event list \<Rightarrow> nat" where
  "listening_checks [] = 0"
| "listening_checks (E_IsServerListening h # es) = Suc (listening_checks es)"
| "listening_checks (e # es) = listening_checks es"

fun slept_ms :: "event list \<Rightarrow> nat" where
  "slept_ms [] = 0"
| "slept_ms (E_Sleep ms # es) = ms + slept_ms es"
| "slept_ms (e # es) = slept_ms es"


text \<open>
  The session state of the specification: the two flags, the binding string and the
  binding handle.
\<close>

definition session :: "state \<Rightarrow> bool \<times> bool \<times> ptr \<times> ptr" where
  "session s = (serverInit s, clientInit s, szStringBinding s, hMidiRPCBinding s)"

subsection \<open>Concrete environments and states\<close>

text \<open>
  Environments at which the statements below are evaluated. In \<open>env_ready\<close> every call
  succeeds at once. The others differ from it in one answer: the server never listens
  (\<open>env_deaf\<close>, status 1715), listens from the fifth event on (\<open>env_late\<close>), every
  remote call raises (\<open>env_broken\<close>, code 1726), the executable is missing
  (\<open>env_missing\<close>).
\<close>

definition env_ready :: env where
  "env_ready =
     \<lparr>MAX_PATH = 260, DIR_SEPARATOR_S = [CHR 0x5C], M_GetExecutableFolder = ''C:'',
      sizeof_si = 68,
      M_FileExists = (\<lambda>t m. True),
      CreateProcess = (\<lambda>t m p. (True, 7)),
      RpcStringBindingCompose = (\<lambda>t p. (0, 1)),
      RpcBindingFromStringBinding = (\<lambda>t p h. (0, 2)),
      RpcMgmtIsServerListening = (\<lambda>t h. 0),
      MidiRPC = (\<lambda>t h c. None)\<rparr>"

definition env_deaf :: env where
  "env_deaf = env_ready\<lparr>RpcMgmtIsServerListening := (\<lambda>t h. 1715)\<rparr>"

definition env_late :: env where
  "env_late = env_ready\<lparr>RpcMgmtIsServerListening := (\<lambda>t h. if t < 4 then 1715 else 0)\<rparr>"

definition env_broken :: env where
  "env_broken = env_ready\<lparr>MidiRPC := (\<lambda>t h c. Some 1726)\<rparr>"

definition env_missing :: env where
  "env_missing = env_ready\<lparr>M_FileExists := (\<lambda>t m. False)\<rparr>"

definition deaf_started :: state where
  "deaf_started = snd (I_MidiRPCInitServer env_deaf state0)"

definition deaf_connected :: state where
  "deaf_connected = snd (I_MidiRPCInitClient env_deaf deaf_started)"

text \<open>A state in which the binding string was composed and the handle was not resolved.\<close>

definition half_bound :: state where
  "half_bound =
     \<lparr>szStringBinding = 1, serverInit = True, clientInit = False,
      si_cb = 68, pi = 7, hMidiRPCBinding = 0, trace = []\<rparr>"

text \<open>A state in which the server was started and the client was bound.\<close>

definition bound :: state where
  "bound =
     \<lparr>szStringBinding = 1, serverInit = True, clientInit = True,
      si_cb = 68, pi = 7, hMidiRPCBinding = 2, trace = []\<rparr>"

section \<open>Auxiliary facts\<close>

declare wait_loop.simps [simp del]

subsection \<open>Events\<close>

lemma emit_fields [simp]:
  "serverInit (emit e s) = serverInit s"
  "clientInit (emit e s) = clientInit s"
  "szStringBinding (emit e s) = szStringBinding s"
  "hMidiRPCBinding (emit e s) = hMidiRPCBinding s"
  "si_cb (emit e s) = si_cb s"
  "pi (emit e s) = pi s"
  "trace (emit e s) = trace s @ [e]"
  "now (emit e s) = Suc (now s)"
  by (simp_all add: emit_def now_def)

subsection \<open>The poll\<close>

lemma failed_checks_le: "failed_checks ev t h n \<le> n"
  by (induction n arbitrary: t) auto

lemma failed_checks_before:
  "j < failed_checks ev t h n \<Longrightarrow> RpcMgmtIsServerListening ev (t + 2 * j) h \<noteq> RPC_S_OK"
proof (induction n arbitrary: t j)
  case 0
  then show ?case by simp
next
  case (Suc n)
  show ?case
  proof (cases j)
    case 0
    with Suc.prems show ?thesis by (auto split: if_splits)
  next
    case (Suc i)
    with Suc.prems have "i < failed_checks ev (t + 2) h n"
      by (auto split: if_splits)
    from Suc.IH [OF this] Suc show ?thesis by simp
  qed
qed

lemma failed_checks_at:
  "failed_checks ev t h n < n \<Longrightarrow>
   RpcMgmtIsServerListening ev (t + 2 * failed_checks ev t h n) h = RPC_S_OK"
proof (induction n arbitrary: t)
  case 0
  then show ?case by simp
next
  case (Suc n)
  show ?case
  proof (cases "RpcMgmtIsServerListening ev t h \<noteq> RPC_S_OK")
    case True
    with Suc.prems have "failed_checks ev (t + 2) h n < n" by simp
    from Suc.IH [OF this] True show ?thesis by simp
  next
    case False
    then show ?thesis by simp
  qed
qed

lemma wait_loop_eq:
  "tries < MIDIRPC_MAXTRIES \<Longrightarrow>
   wait_loop ev tries s =
     (let h = hMidiRPCBinding s;
          m = nat (MIDIRPC_MAXTRIES - tries);
          k = failed_checks ev (now s) h m
      in (k < m,
          s\<lparr>trace := trace s @ concat (replicate k (poll_round h))
                     @ (if k < m then [E_IsServerListening h] else [])\<rparr>))"
proof (induction ev tries s rule: wait_loop.induct)
  case (1 ev tries s)
  let ?h = "hMidiRPCBinding s"
  let ?m = "nat (MIDIRPC_MAXTRIES - tries)"
  from "1.prems" obtain m' where m': "?m = Suc m'"
    by (cases ?m) auto
  show ?case
  proof (cases "RpcMgmtIsServerListening ev (now s) ?h \<noteq> RPC_S_OK")
    case False
    then show ?thesis
      by (subst wait_loop.simps) (simp add: m' emit_def Let_def)
  next
    case nl: True
    let ?s2 = "emit (E_Sleep 10) (emit (E_IsServerListening ?h) s)"
    show ?thesis
    proof (cases "tries + 1 \<ge> MIDIRPC_MAXTRIES")
      case True
      with "1.prems" m' have "m' = 0" by simp
      with nl True show ?thesis
        by (subst wait_loop.simps) (simp add: m' emit_def Let_def poll_round_def)
    next
      case False
      then have lt: "tries + 1 < MIDIRPC_MAXTRIES" by simp
      have m'': "nat (MIDIRPC_MAXTRIES - (tries + 1)) = m'"
        using m' by simp
      have ih: "wait_loop ev (tries + 1) ?s2 =
        (let k = failed_checks ev (now s + 2) ?h m'
         in (k < m',
             ?s2\<lparr>trace := trace ?s2 @ concat (replicate k (poll_round ?h))
                     @ (if k < m' then [E_IsServerListening ?h] else [])\<rparr>))"
        using "1.IH" [OF nl refl refl refl _ lt] False
        by (simp add: m'' Let_def poll_round_def)
      show ?thesis
        using nl False
        by (subst wait_loop.simps) (simp add: ih m' Let_def poll_round_def)
    qed
  qed
qed

lemma wait_eq:
  "I_MidiRPCWaitForServer ev s =
     (let h = hMidiRPCBinding s;
          k = failed_checks ev (now s) h 50
      in (k < 50,
          s\<lparr>trace := trace s @ concat (replicate k (poll_round h))
                     @ (if k < 50 then [E_IsServerListening h] else [])\<rparr>))"
proof -
  have "(0::int) < MIDIRPC_MAXTRIES" "nat (MIDIRPC_MAXTRIES - 0) = 50"
    by (simp_all add: MIDIRPC_MAXTRIES_def)
  then show ?thesis
    unfolding I_MidiRPCWaitForServer_def by (simp add: wait_loop_eq Let_def)
qed

lemma wait_fields:
  "serverInit (snd (I_MidiRPCWaitForServer ev s)) = serverInit s"
  "clientInit (snd (I_MidiRPCWaitForServer ev s)) = clientInit s"
  "szStringBinding (snd (I_MidiRPCWaitForServer ev s)) = szStringBinding s"
  "hMidiRPCBinding (snd (I_MidiRPCWaitForServer ev s)) = hMidiRPCBinding s"
  by (simp_all add: wait_eq Let_def)

subsection \<open>The wrappers and the shutdown\<close>

lemma guarded_call:
  "RpcTryExcept (remote ev c) 1 (return_rpc False) (return_rpc True) s =
     (Inr (MidiRPC ev (now s) (hMidiRPCBinding s) c = None),
      emit (E_Remote (hMidiRPCBinding s) c) s)"
  by (simp add: RpcTryExcept_def remote_def return_rpc_def split: option.splits)

lemma register_eq:
  "\<not> CHECK_RPC_STATUS s \<Longrightarrow>
   I_MidiRPCRegisterSong ev data size' s =
     (let h = hMidiRPCBinding s;
          s1 = emit (E_Remote h MidiRPC_PrepareNewSong) s;
          s2 = emit (E_Remote h (MidiRPC_AddChunk (word_of_int size') data)) s1
      in if MidiRPC ev (now s) h MidiRPC_PrepareNewSong \<noteq> None then (Inr False, s1)
         else (Inr (MidiRPC ev (now s + 1) h
                      (MidiRPC_AddChunk (word_of_int size') data) = None), s2))"
  by (simp add: I_MidiRPCRegisterSong_def RpcTryExcept_def rpc_seq_def remote_def
      return_rpc_def Let_def split: option.splits)

lemma gateway_eq:
  "gateway ev c s =
     (if CHECK_RPC_STATUS s then (Inr False, s)
      else (Inr (\<not> raises ev s c), snd (gateway ev c s)))"
proof (cases "CHECK_RPC_STATUS s")
  case True
  then show ?thesis
    by (cases c)
      (simp_all add: I_MidiRPCRegisterSong_def I_MidiRPCPlaySong_def I_MidiRPCStopSong_def
        I_MidiRPCSetVolume_def I_MidiRPCPauseSong_def I_MidiRPCResumeSong_def)
next
  case False
  then show ?thesis
    by (cases c)
      (auto simp add: register_eq guarded_call I_MidiRPCPlaySong_def I_MidiRPCStopSong_def
        I_MidiRPCSetVolume_def I_MidiRPCPauseSong_def I_MidiRPCResumeSong_def Let_def)
qed

lemma gateway_flags:
  "session (snd (gateway ev c s)) = session s"
proof (cases "CHECK_RPC_STATUS s")
  case True
  then show ?thesis by (subst gateway_eq) simp
next
  case False
  then show ?thesis
    by (cases c)
      (simp_all add: register_eq guarded_call I_MidiRPCPlaySong_def I_MidiRPCStopSong_def
        I_MidiRPCSetVolume_def I_MidiRPCPauseSong_def I_MidiRPCResumeSong_def Let_def
        session_def)
qed

lemma release_eq:
  "ShutDown_release s =
     (Inr (),
      s\<lparr>szStringBinding := 0, hMidiRPCBinding := 0, clientInit := False,
        trace := trace s
          @ (if szStringBinding s \<noteq> 0 then [E_StringFree (szStringBinding s)] else [])
          @ (if hMidiRPCBinding s \<noteq> 0 then [E_BindingFree (hMidiRPCBinding s)] else [])\<rparr>)"
  by (simp add: ShutDown_release_def emit_def Let_def)

lemma shutdown_eq:
  "I_MidiRPCClientShutDown ev s =
     (Inr (),
      s\<lparr>serverInit := False, szStringBinding := 0, hMidiRPCBinding := 0,
        clientInit := False,
        trace := trace s
          @ (if serverInit s then [E_Remote (hMidiRPCBinding s) MidiRPC_StopServer] else [])
          @ (if szStringBinding s \<noteq> 0 then [E_StringFree (szStringBinding s)] else [])
          @ (if hMidiRPCBinding s \<noteq> 0 then [E_BindingFree (hMidiRPCBinding s)] else [])\<rparr>)"
  by (simp add: I_MidiRPCClientShutDown_def RpcTryExcept_def remote_def release_eq emit_def
      split: option.splits)

subsection \<open>The flags across the interface\<close>

lemma init_client_inv:
  "clientInit (snd (I_MidiRPCInitClient ev s)) \<Longrightarrow> clientInit s \<or> serverInit s"
  by (auto simp add: I_MidiRPCInitClient_def Let_def wait_fields split: if_splits prod.splits)

lemma init_client_server:
  "serverInit (snd (I_MidiRPCInitClient ev s)) = serverInit s"
  by (auto simp add: I_MidiRPCInitClient_def Let_def wait_fields split: if_splits prod.splits)

lemma init_server_fields:
  "serverInit (snd (I_MidiRPCInitServer ev s)) = (serverInit s \<or> fst (I_MidiRPCInitServer ev s))"
  "clientInit (snd (I_MidiRPCInitServer ev s)) = clientInit s"
  "szStringBinding (snd (I_MidiRPCInitServer ev s)) = szStringBinding s"
  "hMidiRPCBinding (snd (I_MidiRPCInitServer ev s)) = hMidiRPCBinding s"
  by (auto simp add: I_MidiRPCInitServer_def Let_def split: if_splits prod.splits)

lemma failed_checks_all:
  "(\<And>t. RpcMgmtIsServerListening ev t h \<noteq> RPC_S_OK) \<Longrightarrow> failed_checks ev t h n = n"
  by (induction n arbitrary: t) auto

lemma init_client_eq:
  assumes "serverInit s"
    and "RpcStringBindingCompose ev (now s) (szStringBinding s) = (0, p)"
    and "RpcBindingFromStringBinding ev (Suc (now s)) p (hMidiRPCBinding s) = (0, h)"
  shows "I_MidiRPCInitClient ev s =
     I_MidiRPCWaitForServer ev
       (s\<lparr>szStringBinding := p, hMidiRPCBinding := h,
          trace := trace s @ [E_StringBindingCompose, E_BindingFromStringBinding p],
          clientInit := True\<rparr>)"
  using assms by (simp add: I_MidiRPCInitClient_def Let_def emit_def now_def)

subsection \<open>The concrete environments\<close>

lemma rounds_measures:
  "listening_checks (concat (replicate k (poll_round h)) @ es) = k + listening_checks es"
  "slept_ms (concat (replicate k (poll_round h)) @ es) = 10 * k + slept_ms es"
  by (induction k) (simp_all add: poll_round_def)

lemma failed_checks_numeral:
  "failed_checks ev t h (numeral n) =
     (if RpcMgmtIsServerListening ev t h \<noteq> RPC_S_OK
      then Suc (failed_checks ev (t + 2) h (pred_numeral n)) else 0)"
  by (simp only: numeral_eq_Suc failed_checks.simps)

lemma env_simps:
  "M_FileExists env_ready = (\<lambda>t m. True)"
  "CreateProcess env_ready = (\<lambda>t m p. (True, 7))"
  "RpcStringBindingCompose env_ready = (\<lambda>t p. (0, 1))"
  "RpcBindingFromStringBinding env_ready = (\<lambda>t p h. (0, 2))"
  "RpcMgmtIsServerListening env_ready = (\<lambda>t h. 0)"
  "MidiRPC env_ready = (\<lambda>t h c. None)"
  "M_FileExists env_deaf = (\<lambda>t m. True)"
  "CreateProcess env_deaf = (\<lambda>t m p. (True, 7))"
  "RpcStringBindingCompose env_deaf = (\<lambda>t p. (0, 1))"
  "RpcBindingFromStringBinding env_deaf = (\<lambda>t p h. (0, 2))"
  "RpcMgmtIsServerListening env_deaf = (\<lambda>t h. 1715)"
  "MidiRPC env_deaf = (\<lambda>t h c. None)"
  "RpcMgmtIsServerListening env_late = (\<lambda>t h. if t < 4 then 1715 else 0)"
  "MidiRPC env_broken = (\<lambda>t h c. Some 1726)"
  "M_FileExists env_missing = (\<lambda>t m. False)"
  by (simp_all add: env_ready_def env_deaf_def env_late_def env_broken_def env_missing_def)

lemma deaf_started_fields:
  "serverInit deaf_started" "\<not> clientInit deaf_started" "now deaf_started = 3"
  "szStringBinding deaf_started = 0" "hMidiRPCBinding deaf_started = 0"
  by (simp_all add: deaf_started_def I_MidiRPCInitServer_def state0_def env_simps Let_def
      now_def emit_def)

lemma bound_fields:
  "serverInit bound" "clientInit bound" "szStringBinding bound = 1"
  "hMidiRPCBinding bound = 2" "now bound = 0" "trace bound = []"
  "\<not> CHECK_RPC_STATUS bound"
  by (simp_all add: bound_def now_def CHECK_RPC_STATUS_def)

lemma half_bound_fields:
  "serverInit half_bound" "\<not> clientInit half_bound" "szStringBinding half_bound = 1"
  "hMidiRPCBinding half_bound = 0" "now half_bound = 0" "trace half_bound = []"
  by (simp_all add: half_bound_def now_def)

lemma state0_fields:
  "\<not> serverInit state0" "\<not> clientInit state0" "szStringBinding state0 = 0"
  "hMidiRPCBinding state0 = 0" "now state0 = 0" "trace state0 = []"
  by (simp_all add: state0_def now_def)

lemma late_checks: "failed_checks env_late 0 2 50 = 2"
  by (simp add: failed_checks_numeral env_simps RPC_S_OK_def)

lemma late_wait:
  "I_MidiRPCWaitForServer env_late bound =
     (True, bound\<lparr>trace := [E_IsServerListening 2, E_Sleep 10,
                            E_IsServerListening 2, E_Sleep 10, E_IsServerListening 2]\<rparr>)"
proof -
  have two: "replicate 2 x = [x, x]" for x :: "event list"
    by (simp add: numeral_2_eq_2)
  show ?thesis
    by (simp add: wait_eq Let_def bound_fields late_checks poll_round_def two)
qed

subsection \<open>Sequences of calls\<close>

lemma exec_inv:
  assumes "clientInit s \<longrightarrow> serverInit s"
  shows "\<exists>s'. exec ev c s = Inr s' \<and> (clientInit s' \<longrightarrow> serverInit s')"
proof (cases c)
  case InitServer
  with assms show ?thesis by (simp add: init_server_fields)
next
  case InitClient
  with assms show ?thesis
    using init_client_inv [of ev s] by (auto simp add: init_client_server)
next
  case (Command g)
  have "\<exists>b. fst (gateway ev g s) = Inr b"
    by (subst gateway_eq) auto
  then obtain b s' where g: "gateway ev g s = (Inr b, s')"
    by (metis prod.collapse)
  have "session (snd (gateway ev g s)) = session s"
    by (rule gateway_flags)
  with g have "session s' = session s" by simp
  with assms Command g show ?thesis
    by (simp add: session_def)
next
  case ClientShutDown
  then show ?thesis by (simp add: shutdown_eq)
qed

lemma run_inv:
  "clientInit s \<longrightarrow> serverInit s \<Longrightarrow>
   \<exists>s'. run ev cs s = Inr s' \<and> (clientInit s' \<longrightarrow> serverInit s')"
proof (induction cs arbitrary: s)
  case Nil
  then show ?case by simp
next
  case (Cons c cs)
  from exec_inv [OF Cons.prems, of ev c] obtain s1
    where s1: "exec ev c s = Inr s1" "clientInit s1 \<longrightarrow> serverInit s1" by blast
  from Cons.IH [OF s1(2)] s1(1) show ?case by simp
qed

section \<open>Claims\<close>

subsection \<open>C1: connect when the server never listens\<close>

text \<open>
  C1: if start succeeds, the binding string is composed, the handle is resolved and the
  server does not report listening within the 50 tries of the poll, then
  \<^verbatim>\<open>I_MidiRPCInitClient\<close> returns false, \<^verbatim>\<open>clientInit\<close> is false after the call,
  and every gateway command issued afterwards returns false.

  The code does not do this. The comment of \<^verbatim>\<open>CHECK_RPC_STATUS\<close> says that no RPC
  call is tried when the initialisation of the server or of the client failed, and
  \<^verbatim>\<open>clientInit\<close> is read by that guard only; but \<^verbatim>\<open>I_MidiRPCInitClient\<close>
  assigns \<^verbatim>\<open>clientInit = true\<close> when the handle is resolved, before it waits for the
  server, and does not take the assignment back when the wait fails. The theorem
  evaluates the code in \<open>env_deaf\<close>, from the initial state: start succeeds, the string
  is composed (pointer 1), the handle is resolved (handle 2), all 50 checks fail and
  \<^verbatim>\<open>I_MidiRPCInitClient\<close> returns false; yet \<^verbatim>\<open>clientInit\<close> is true after the
  call, and \<^verbatim>\<open>I_MidiRPCStopSong\<close> then makes its remote call and returns true.
\<close>

theorem connect_timeout_counterexample:
  "fst (I_MidiRPCInitServer env_deaf state0)
   \<and> RpcStringBindingCompose env_deaf (now deaf_started) (szStringBinding deaf_started) = (0, 1)
   \<and> RpcBindingFromStringBinding env_deaf (now deaf_started + 1) 1
        (hMidiRPCBinding deaf_started) = (0, 2)
   \<and> failed_checks env_deaf (now deaf_started + 2) 2 50 = 50
   \<and> \<not> fst (I_MidiRPCInitClient env_deaf deaf_started)
   \<and> clientInit deaf_connected
   \<and> fst (I_MidiRPCStopSong env_deaf deaf_connected) = Inr True"
proof -
  have start: "fst (I_MidiRPCInitServer env_deaf state0)"
    by (simp add: I_MidiRPCInitServer_def env_simps Let_def)
  have deaf: "failed_checks env_deaf t 2 n = n" for t n
    by (rule failed_checks_all) (simp add: env_simps RPC_S_OK_def)
  have eq: "I_MidiRPCInitClient env_deaf deaf_started =
     I_MidiRPCWaitForServer env_deaf
       (deaf_started\<lparr>szStringBinding := 1, hMidiRPCBinding := 2,
          trace := trace deaf_started @ [E_StringBindingCompose, E_BindingFromStringBinding 1],
          clientInit := True\<rparr>)"
    by (rule init_client_eq) (simp_all add: deaf_started_fields env_simps)
  have res: "\<not> fst (I_MidiRPCInitClient env_deaf deaf_started)"
    by (simp add: eq wait_eq Let_def deaf)
  have flags: "clientInit deaf_connected" "serverInit deaf_connected"
    by (simp_all add: deaf_connected_def eq wait_fields deaf_started_fields)
  then have "\<not> CHECK_RPC_STATUS deaf_connected"
    by (simp add: CHECK_RPC_STATUS_def)
  then have "fst (I_MidiRPCStopSong env_deaf deaf_connected) = Inr True"
    by (simp add: I_MidiRPCStopSong_def guarded_call env_simps)
  with start res flags show ?thesis
    by (simp add: env_simps deaf)
qed

subsection \<open>C2: the guard of the gateway\<close>

text \<open>
  C2: in every state, hence after every sequence of calls of the interface, a gateway
  command returns true only if \<^verbatim>\<open>serverInit\<close> and \<^verbatim>\<open>clientInit\<close> are both true
  when it is called; when either flag is false the command returns false and leaves the
  state as it was, trace included: no remote call is made.
\<close>

theorem gateway_guard:
  "(fst (gateway ev c s) = Inr True \<longrightarrow> serverInit s \<and> clientInit s)
   \<and> (\<not> serverInit s \<or> \<not> clientInit s \<longrightarrow> gateway ev c s = (Inr False, s))"
  by (subst (1 2) gateway_eq) (simp add: CHECK_RPC_STATUS_def)

theorem gateway_guard_witness:
  "fst (gateway env_ready StopSong bound) = Inr True
   \<and> serverInit bound \<and> clientInit bound
   \<and> \<not> clientInit half_bound
   \<and> gateway env_ready StopSong half_bound = (Inr False, half_bound)"
  using gateway_guard [of env_ready StopSong bound]
    gateway_guard [of env_ready StopSong half_bound]
  by (simp add: I_MidiRPCStopSong_def guarded_call env_simps bound_fields half_bound_fields)

subsection \<open>C3: transport faults\<close>

text \<open>
  C3: for each of the six gateway commands, if a remote call the command makes raises,
  the command returns false; and whatever the remote side does, no exception leaves the
  command (its result is never an exception in flight).
\<close>

theorem gateway_catches_faults:
  "(raises ev s c \<longrightarrow> fst (gateway ev c s) = Inr False)
   \<and> (\<forall>code. fst (gateway ev c s) \<noteq> Inl code)"
  by (subst (1 2) gateway_eq) simp

theorem gateway_catches_faults_witness:
  "raises env_broken bound (SetVolume 50)
   \<and> fst (gateway env_broken (SetVolume 50) bound) = Inr False
   \<and> fst (gateway env_broken (SetVolume 50) bound) \<noteq> Inl 1726"
  using gateway_catches_faults [of env_broken bound "SetVolume 50"]
  by (simp add: env_simps)

subsection \<open>C4: shutdown twice\<close>



subsection \<open>C5: connect without a server\<close>

text \<open>
  C5: called while \<^verbatim>\<open>serverInit\<close> is false, \<^verbatim>\<open>I_MidiRPCInitClient\<close> returns
  false and leaves the state as it was, trace included: nothing is composed, resolved or
  polled.
\<close>

theorem connect_needs_server:
  "\<not> serverInit s \<Longrightarrow> I_MidiRPCInitClient ev s = (False, s)"
  by (simp add: I_MidiRPCInitClient_def)

theorem connect_needs_server_witness:
  "\<not> serverInit state0 \<and> I_MidiRPCInitClient env_ready state0 = (False, state0)"
  using connect_needs_server [of state0 env_ready]
  by (simp add: state0_fields)

subsection \<open>C6: the readiness poll\<close>

text \<open>
  C6: \<^verbatim>\<open>I_MidiRPCWaitForServer\<close> returns (the loop is a total function). With \<open>k\<close>
  the number of failed checks before the first successful one, at most 50, the calls it
  makes are \<open>k\<close> rounds of a listening check and a sleep of 10 ms, followed by one more
  check when it returns true, and nothing else; it returns true exactly when \<open>k < 50\<close>,
  that is as soon as a check reports listening, and false after 50 failed checks. So it
  makes at most 50 checks and sleeps \<open>10 * k\<close> ms, at most 500 ms.
\<close>

theorem poll_bounded:
  "(let r = I_MidiRPCWaitForServer ev s;
        h = hMidiRPCBinding s;
        k = failed_checks ev (now s) h 50;
        new = drop (now s) (trace (snd r))
    in snd r = s\<lparr>trace := trace s @ new\<rparr>
       \<and> new = concat (replicate k (poll_round h)) @ (if fst r then [E_IsServerListening h] else [])
       \<and> fst r = (k < 50)
       \<and> (\<forall>j<k. RpcMgmtIsServerListening ev (now s + 2 * j) h \<noteq> RPC_S_OK)
       \<and> (fst r \<longrightarrow> RpcMgmtIsServerListening ev (now s + 2 * k) h = RPC_S_OK)
       \<and> listening_checks new \<le> 50
       \<and> slept_ms new = 10 * k \<and> slept_ms new \<le> 500)"
proof -
  define h where "h = hMidiRPCBinding s"
  define k where "k = failed_checks ev (now s) h 50"
  define tl where "tl = (if k < 50 then [E_IsServerListening h] else [])"
  define new where "new = concat (replicate k (poll_round h)) @ tl"
  have r: "I_MidiRPCWaitForServer ev s = (k < 50, s\<lparr>trace := trace s @ new\<rparr>)"
    by (simp add: wait_eq Let_def h_def k_def new_def tl_def)
  have new: "drop (now s) (trace (snd (I_MidiRPCWaitForServer ev s))) = new"
    by (simp add: r now_def)
  have le: "k \<le> 50"
    unfolding k_def by (rule failed_checks_le)
  have before: "\<forall>j<k. RpcMgmtIsServerListening ev (now s + 2 * j) h \<noteq> RPC_S_OK"
    unfolding k_def using failed_checks_before by blast
  have at: "k < 50 \<longrightarrow> RpcMgmtIsServerListening ev (now s + 2 * k) h = RPC_S_OK"
    unfolding k_def using failed_checks_at by blast
  have checks: "listening_checks new = k + (if k < 50 then 1 else 0)"
    by (simp add: new_def tl_def rounds_measures)
  have slept: "slept_ms new = 10 * k"
    by (simp add: new_def tl_def rounds_measures)
  have c1: "listening_checks new \<le> 50"
    using le checks by simp
  have c2: "slept_ms new \<le> 500"
    using le slept by simp
  have shape: "new = concat (replicate k (poll_round h))
      @ (if fst (I_MidiRPCWaitForServer ev s) then [E_IsServerListening h] else [])"
    by (simp add: r new_def tl_def)
  have res: "fst (I_MidiRPCWaitForServer ev s) = (k < 50)"
    by (simp add: r)
  have st: "snd (I_MidiRPCWaitForServer ev s) = s\<lparr>trace := trace s @ new\<rparr>"
    by (simp add: r)
  show ?thesis
    unfolding Let_def new h_def [symmetric] k_def [symmetric]
    using st shape res before at c1 slept c2 by blast
qed

theorem poll_bounded_witness:
  "I_MidiRPCWaitForServer env_late bound =
     (True, bound\<lparr>trace := [E_IsServerListening 2, E_Sleep 10,
                            E_IsServerListening 2, E_Sleep 10, E_IsServerListening 2]\<rparr>)
   \<and> failed_checks env_late (now bound) (hMidiRPCBinding bound) 50 = 2
   \<and> RpcMgmtIsServerListening env_late 0 2 \<noteq> RPC_S_OK
   \<and> RpcMgmtIsServerListening env_late 2 2 \<noteq> RPC_S_OK
   \<and> RpcMgmtIsServerListening env_late 4 2 = RPC_S_OK
   \<and> listening_checks (drop (now bound) (trace (snd (I_MidiRPCWaitForServer env_late bound)))) = 3
   \<and> slept_ms (drop (now bound) (trace (snd (I_MidiRPCWaitForServer env_late bound)))) = 20"
proof -
  have k: "failed_checks env_late (now bound) (hMidiRPCBinding bound) 50 = 2"
    by (simp add: bound_fields late_checks)
  have l: "RpcMgmtIsServerListening env_late 0 2 \<noteq> RPC_S_OK"
    "RpcMgmtIsServerListening env_late 2 2 \<noteq> RPC_S_OK"
    "RpcMgmtIsServerListening env_late 4 2 = RPC_S_OK"
    by (simp_all add: env_simps RPC_S_OK_def)
  have c: "listening_checks (drop (now bound)
      (trace (snd (I_MidiRPCWaitForServer env_late bound)))) = 3"
    by (simp add: late_wait bound_fields)
  from poll_bounded [of env_late bound]
  have "slept_ms (drop (now bound) (trace (snd (I_MidiRPCWaitForServer env_late bound))))
      = 10 * failed_checks env_late (now bound) (hMidiRPCBinding bound) 50"
    unfolding Let_def by blast
  with k l c late_wait show ?thesis by simp
qed

subsection \<open>C7: registering a song\<close>

text \<open>
  C7: past the guard, \<^verbatim>\<open>I_MidiRPCRegisterSong\<close> calls prepare-new-song and then
  add-chunk with the whole payload; it returns true exactly when neither raises. When
  prepare-new-song raises it returns false and add-chunk is not called; when add-chunk
  raises it returns false. In each case no further remote call is made: nothing is
  cleaned up on the remote side.
\<close>

theorem register_song_two_calls:
  assumes "\<not> CHECK_RPC_STATUS s"
  shows "I_MidiRPCRegisterSong ev data size' s =
     (let h = hMidiRPCBinding s;
          prepare = E_Remote h MidiRPC_PrepareNewSong;
          chunk = E_Remote h (MidiRPC_AddChunk (word_of_int size') data)
      in if MidiRPC ev (now s) h MidiRPC_PrepareNewSong \<noteq> None
         then (Inr False, s\<lparr>trace := trace s @ [prepare]\<rparr>)
         else if MidiRPC ev (now s + 1) h (MidiRPC_AddChunk (word_of_int size') data) \<noteq> None
         then (Inr False, s\<lparr>trace := trace s @ [prepare, chunk]\<rparr>)
         else (Inr True, s\<lparr>trace := trace s @ [prepare, chunk]\<rparr>))"
  using assms by (simp add: register_eq Let_def emit_def)

theorem register_song_two_calls_witness:
  "\<not> CHECK_RPC_STATUS bound
   \<and> I_MidiRPCRegisterSong env_ready [77, 84, 104, 100] 4 bound =
       (Inr True,
        bound\<lparr>trace := [E_Remote 2 MidiRPC_PrepareNewSong,
                         E_Remote 2 (MidiRPC_AddChunk 4 [77, 84, 104, 100])]\<rparr>)
   \<and> I_MidiRPCRegisterSong env_broken [77, 84, 104, 100] 4 bound =
       (Inr False, bound\<lparr>trace := [E_Remote 2 MidiRPC_PrepareNewSong]\<rparr>)"
  using register_song_two_calls [of bound env_ready "[77, 84, 104, 100]" 4]
    register_song_two_calls [of bound env_broken "[77, 84, 104, 100]" 4]
  by (simp add: env_simps bound_fields Let_def)

subsection \<open>C8: starting the server\<close>

text \<open>
  C8: \<^verbatim>\<open>I_MidiRPCInitServer\<close> returns true exactly when the executable exists and
  process creation succeeds, and then \<^verbatim>\<open>serverInit\<close> is true; when it returns false
  the session state (both flags, binding string, binding handle) is as before, and if
  \<^verbatim>\<open>serverInit\<close> was false a call of \<^verbatim>\<open>I_MidiRPCInitClient\<close> that follows
  returns false and changes nothing.
\<close>

theorem start_sets_flag_on_success_only:
  "(let r = I_MidiRPCInitServer ev s; s' = snd r
    in fst r = (M_FileExists ev (now s) (module_path ev)
                \<and> fst (CreateProcess ev (now s + 1) (module_path ev) (pi s)))
       \<and> (fst r \<longrightarrow> serverInit s')
       \<and> (\<not> fst r \<longrightarrow> session s' = session s)
       \<and> (\<not> fst r \<and> \<not> serverInit s \<longrightarrow> I_MidiRPCInitClient ev s' = (False, s')))"
proof -
  have "\<not> fst (I_MidiRPCInitServer ev s) \<and> \<not> serverInit s \<longrightarrow>
      \<not> serverInit (snd (I_MidiRPCInitServer ev s))"
    by (simp add: init_server_fields)
  moreover have "fst (I_MidiRPCInitServer ev s) =
      (M_FileExists ev (now s) (module_path ev)
       \<and> fst (CreateProcess ev (now s + 1) (module_path ev) (pi s)))"
    by (simp add: I_MidiRPCInitServer_def Let_def now_def emit_def split: prod.splits)
  ultimately show ?thesis
    by (auto simp add: Let_def session_def init_server_fields I_MidiRPCInitClient_def)
qed

theorem start_sets_flag_on_success_only_witness:
  "\<not> fst (I_MidiRPCInitServer env_missing state0)
   \<and> session (snd (I_MidiRPCInitServer env_missing state0)) = session state0
   \<and> \<not> fst (I_MidiRPCInitClient env_missing (snd (I_MidiRPCInitServer env_missing state0)))
   \<and> fst (I_MidiRPCInitServer env_ready state0)
   \<and> serverInit (snd (I_MidiRPCInitServer env_ready state0))"
  using start_sets_flag_on_success_only [of env_missing state0]
    start_sets_flag_on_success_only [of env_ready state0]
  by (simp add: Let_def env_simps state0_fields)

subsection \<open>C9: a bound client has a started server\<close>

text \<open>
  C9: every sequence of calls of the interface from the initial state runs to its end
  without an exception, and in the state it reaches \<^verbatim>\<open>clientInit\<close> implies
  \<^verbatim>\<open>serverInit\<close>.
\<close>

theorem client_bound_implies_server_started:
  "(case run ev cs state0 of
      Inl code \<Rightarrow> False
    | Inr s \<Rightarrow> clientInit s \<longrightarrow> serverInit s)"
proof -
  have "clientInit state0 \<longrightarrow> serverInit state0"
    by (simp add: state0_def)
  from run_inv [OF this, of ev cs] show ?thesis by auto
qed

theorem client_bound_implies_server_started_witness:
  "(case run env_ready [InitServer, InitClient] state0 of
      Inl code \<Rightarrow> False
    | Inr s \<Rightarrow> clientInit s \<and> serverInit s)"
proof -
  have s1: "serverInit (snd (I_MidiRPCInitServer env_ready state0))"
    by (simp add: init_server_fields I_MidiRPCInitServer_def env_simps Let_def)
  have "I_MidiRPCInitClient env_ready (snd (I_MidiRPCInitServer env_ready state0)) =
     I_MidiRPCWaitForServer env_ready
       ((snd (I_MidiRPCInitServer env_ready state0))\<lparr>szStringBinding := 1, hMidiRPCBinding := 2,
          trace := trace (snd (I_MidiRPCInitServer env_ready state0))
                   @ [E_StringBindingCompose, E_BindingFromStringBinding 1],
          clientInit := True\<rparr>)"
    by (rule init_client_eq) (simp_all add: s1 env_simps)
  then have "clientInit (snd (I_MidiRPCInitClient env_ready
      (snd (I_MidiRPCInitServer env_ready state0))))"
    by (simp add: wait_fields)
  then show ?thesis
    using client_bound_implies_server_started [of env_ready "[InitServer, InitClient]"]
    by simp
qed

subsection \<open>C10: shutdown stops the server without the guard\<close>

text \<open>
  C10: whenever \<^verbatim>\<open>serverInit\<close> is true, and whatever \<^verbatim>\<open>clientInit\<close> is, the
  first call \<^verbatim>\<open>I_MidiRPCClientShutDown\<close> makes is the remote stop-server call; it
  is made in a state where \<^verbatim>\<open>CHECK_RPC_STATUS\<close> would return false too.
\<close>

theorem shutdown_stops_server_unguarded:
  "serverInit s \<Longrightarrow>
   take 1 (drop (now s) (trace (snd (I_MidiRPCClientShutDown ev (s\<lparr>clientInit := b\<rparr>)))))
     = [E_Remote (hMidiRPCBinding s) MidiRPC_StopServer]"
  by (simp add: shutdown_eq now_def)

theorem shutdown_stops_server_unguarded_witness:
  "serverInit half_bound \<and> CHECK_RPC_STATUS (half_bound\<lparr>clientInit := False\<rparr>)
   \<and> take 1 (drop (now half_bound)
        (trace (snd (I_MidiRPCClientShutDown env_ready (half_bound\<lparr>clientInit := False\<rparr>)))))
       = [E_Remote 0 MidiRPC_StopServer]"
  using shutdown_stops_server_unguarded [of half_bound env_ready False]
  by (simp add: half_bound_fields CHECK_RPC_STATUS_def)

end
